theory Spec2Isabelle
  imports Complex_Main "HOL-Library.Sublist"
begin

section \<open>Retail footfall analyzer: messages, conversation state and the object store\<close>

text \<open>
  The analyzer of \<^verbatim>\<open>retail-footfall-analyzer.py\<close> works on LangChain messages. The message
  classes come from the library; the model keeps what the program reads of them: the class
  of a message (what \<^verbatim>\<open>isinstance\<close> and \<^verbatim>\<open>hasattr\<close> inspect), its content and, on an
  assistant message, the list of tool calls.
\<close>

datatype tool_call = ToolCall (tc_name: string) (tc_args: string) (tc_id: string)

datatype message =
    SystemMessage string
  | HumanMessage string
  | AIMessage string "tool_call list"
  | ToolMessage string string

text \<open>\<^verbatim>\<open>isinstance(msg, SystemMessage)\<close>.\<close>

fun is_SystemMessage :: "message \<Rightarrow> bool" where
  "is_SystemMessage (SystemMessage c) = True"
| "is_SystemMessage m = False"


text \<open>
  Python lists are objects: \<^verbatim>\<open>state['messages']\<close> holds a reference, and two names may
  denote the same list. The store maps every reference to the list it denotes; references
  below \<open>top\<close> are allocated, and a new list is placed at \<open>top\<close>.
\<close>

type_synonym ref = nat

record store =
  objs :: "ref \<Rightarrow> message list"
  top :: ref

definition alloc :: "message list \<Rightarrow> store \<Rightarrow> ref \<times> store" where
  "alloc xs h = (top h, h\<lparr>objs := (objs h)(top h := xs), top := Suc (top h)\<rparr>)"

text \<open>\<^verbatim>\<open>MessagesState\<close>: a dictionary with the one key \<^verbatim>\<open>'messages'\<close>.\<close>

record state =
  messages :: ref

section \<open>Exceptions\<close>

text \<open>
  An exception is a value; \<open>Inl e\<close> is a raise of \<open>e\<close>. The type stands for the instances of
  Python's class \<^verbatim>\<open>Exception\<close>, which is what the two handlers of the program
  (\<^verbatim>\<open>except Exception as e\<close>) catch. The exceptions of the other classes, which the
  handlers let through, come with the type \<open>raised\<close> further down.
\<close>

datatype exc =
    ValueError string
  | IndexError string
  | Exception string string

text \<open>\<^verbatim>\<open>str(e)\<close>: the message of the exception.\<close>

fun str_exc :: "exc \<Rightarrow> string" where
  "str_exc (ValueError m) = m"
| "str_exc (IndexError m) = m"
| "str_exc (Exception cls m) = m"

section \<open>The loop controller\<close>






section \<open>The model invoker\<close>

text \<open>
  The analyzer object. \<open>llm\<close> is the chat-model client: \<^verbatim>\<open>self.llm.invoke(messages)\<close> reads
  the list it is given and returns a message or raises. \<open>graph\<close> is the compiled graph:
  \<^verbatim>\<open>self.graph.invoke(input)\<close> returns the final state or raises, and may allocate lists.
  Both belong to libraries and are parameters of the model.
\<close>

record analyzer =
  llm :: "message list \<Rightarrow> exc + message"
  system_prompt :: string
  graph :: "state \<Rightarrow> store \<Rightarrow> (exc + state) \<times> store"

text \<open>
  \<^verbatim>\<open>_call_model\<close>. Both \<^verbatim>\<open>[SystemMessage(...)] + messages\<close> and \<^verbatim>\<open>messages + [...]\<close> build a
  new list; the \<open>Inl\<close> branch of the \<open>case\<close> is the handler \<^verbatim>\<open>except Exception as e\<close>.
  This is the function on the lists: what it returns when its prints are accepted and the
  client raises nothing outside \<^verbatim>\<open>Exception\<close>. The prints and the other exceptions are in
  \<open>call_model_run\<close> further down, which agrees with it then.
\<close>

definition call_model :: "analyzer \<Rightarrow> state \<Rightarrow> store \<Rightarrow> (exc + state) \<times> store" where
  "call_model self st h =
     (let (msgs, h1) =
            (if \<not> list_ex is_SystemMessage (objs h (messages st))
             then alloc ([SystemMessage (system_prompt self)] @ objs h (messages st)) h
             else (messages st, h))
      in case llm self (objs h1 msgs) of
           Inr response \<Rightarrow>
             (let (r, h2) = alloc (objs h1 msgs @ [response]) h1
              in (Inr \<lparr>messages = r\<rparr>, h2))
         | Inl e \<Rightarrow>
             (let error_message = ''An error occurred: '' @ str_exc e;
                  (r, h2) = alloc (objs h1 msgs @ [HumanMessage error_message]) h1
              in (Inr \<lparr>messages = r\<rparr>, h2)))"



text \<open>The roles of the data model.\<close>

datatype role = System | User | Assistant | ToolResult

fun role_of :: "message \<Rightarrow> role" where
  "role_of (SystemMessage c) = System"
| "role_of (HumanMessage c) = User"
| "role_of (AIMessage c tcs) = Assistant"
| "role_of (ToolMessage c i) = ToolResult"



section \<open>Strings\<close>

text \<open>
  Strings are lists of 8-bit characters. \<^verbatim>\<open>str.lower()\<close> maps the letters \<^verbatim>\<open>A\<close> to \<^verbatim>\<open>Z\<close>
  to \<^verbatim>\<open>a\<close> to \<^verbatim>\<open>z\<close> and leaves every other ASCII character as it is; the case mapping
  of characters beyond ASCII is left to \<open>py_lower\<close> further down. Python's substring test
  \<^verbatim>\<open>pat in s\<close> is \<^term>\<open>sublist pat s\<close>.
\<close>

definition lower_char :: "char \<Rightarrow> char" where
  "lower_char c = (let n = (of_char c :: nat) in if 65 \<le> n \<and> n \<le> 90 then char_of (n + 32) else c)"

definition str_lower :: "string \<Rightarrow> string" where
  "str_lower s = map lower_char s"

section \<open>JSON values and \<^verbatim>\<open>json.dumps\<close>\<close>

text \<open>
  The values the program serialises: strings, integers, lists, and dictionaries with
  string keys, in insertion order.
\<close>

datatype json = JString string | JInt int | JArray "json list" | JObject "(string \<times> json) list"

text \<open>The decimal text of an integer.\<close>

definition digit_char :: "nat \<Rightarrow> char" where
  "digit_char d = char_of (48 + d)"

fun show_nat :: "nat \<Rightarrow> string" where
  "show_nat n = (if n < 10 then [digit_char n] else show_nat (n div 10) @ [digit_char (n mod 10)])"

definition show_int :: "int \<Rightarrow> string" where
  "show_int i = (if i < 0 then CHR ''-'' # show_nat (nat (- i)) else show_nat (nat i))"

text \<open>
  String encoding with \<^verbatim>\<open>ensure_ascii\<close>: the quote and the backslash are escaped, the
  control characters have their short escapes, and every other character outside the
  printable ASCII range becomes \<^verbatim>\<open>\u00XX\<close>.
\<close>

definition hex_char :: "nat \<Rightarrow> char" where
  "hex_char d = (if d < 10 then char_of (48 + d) else char_of (87 + d))"

definition escape_char :: "char \<Rightarrow> string" where
  "escape_char c =
     (let n = (of_char c :: nat) in
      if n = 34 then [CHR 0x5C, CHR 0x22]
      else if n = 92 then [CHR 0x5C, CHR 0x5C]
      else if n = 10 then [CHR 0x5C, CHR ''n'']
      else if n = 13 then [CHR 0x5C, CHR ''r'']
      else if n = 9 then [CHR 0x5C, CHR ''t'']
      else if n = 8 then [CHR 0x5C, CHR ''b'']
      else if n = 12 then [CHR 0x5C, CHR ''f'']
      else if n < 32 \<or> 126 < n then [CHR 0x5C, CHR ''u'', CHR ''0'', CHR ''0'', hex_char (n div 16), hex_char (n mod 16)]
      else [c])"

definition encode_string :: "string \<Rightarrow> string" where
  "encode_string s = [CHR 0x22] @ concat (map escape_char s) @ [CHR 0x22]"

text \<open>
  The encoder. With \<^verbatim>\<open>indent=n\<close> every item starts on a new line, indented by \<open>n\<close> spaces
  per nesting level, and items are separated by a comma; without it items are separated
  by a comma and a space on one line. The key separator is a colon and a space in both.
\<close>

definition newline_indent :: "nat option \<Rightarrow> nat \<Rightarrow> string" where
  "newline_indent indent level =
     (case indent of None \<Rightarrow> [] | Some n \<Rightarrow> CHR 0x0A # replicate (n * level) CHR '' '')"

definition item_separator :: "nat option \<Rightarrow> nat \<Rightarrow> string" where
  "item_separator indent level =
     (case indent of None \<Rightarrow> '', '' | Some n \<Rightarrow> '','' @ newline_indent indent level)"

fun join :: "string \<Rightarrow> string list \<Rightarrow> string" where
  "join sep [] = []"
| "join sep [x] = x"
| "join sep (x # y # ys) = x @ sep @ join sep (y # ys)"

fun encode :: "nat option \<Rightarrow> nat \<Rightarrow> json \<Rightarrow> string" where
  "encode indent level (JString s) = encode_string s"
| "encode indent level (JInt i) = show_int i"
| "encode indent level (JArray xs) =
     (if xs = [] then ''[]''
      else ''['' @ newline_indent indent (Suc level)
           @ join (item_separator indent (Suc level)) (map (encode indent (Suc level)) xs)
           @ newline_indent indent level @ '']'')"
| "encode indent level (JObject kvs) =
     (if kvs = [] then ''{}''
      else ''{'' @ newline_indent indent (Suc level)
           @ join (item_separator indent (Suc level))
               (map (\<lambda>kv. encode_string (fst kv) @ '': '' @ encode indent (Suc level) (snd kv)) kvs)
           @ newline_indent indent level @ ''}'')"

definition json_dumps :: "nat option \<Rightarrow> json \<Rightarrow> string" where
  "json_dumps indent v = encode indent 0 v"


section \<open>Reading JSON text\<close>

text \<open>
  \<^verbatim>\<open>json.loads\<close> on the texts of the values above, used to read what the tool handler
  returns: a recursive-descent reader, with the length of the text as the bound on its
  recursion. The result is \<open>None\<close> where \<^verbatim>\<open>json.loads\<close> raises, and also on a text that holds
  a value of another kind (a float, \<^verbatim>\<open>true\<close>, \<^verbatim>\<open>false\<close>, \<^verbatim>\<open>null\<close>, or an escape of a
  character beyond the 8-bit range).
\<close>

definition is_ws :: "char \<Rightarrow> bool" where
  "is_ws c = (c = CHR '' '' \<or> c = CHR 0x0A \<or> c = CHR 0x0D \<or> c = CHR 0x09)"

definition skip_ws :: "string \<Rightarrow> string" where
  "skip_ws s = dropWhile is_ws s"

definition is_digit :: "char \<Rightarrow> bool" where
  "is_digit c = (48 \<le> (of_char c :: nat) \<and> (of_char c :: nat) \<le> 57)"

definition digit_val :: "char \<Rightarrow> nat" where
  "digit_val c = of_char c - 48"

definition hex_val :: "char \<Rightarrow> nat option" where
  "hex_val c =
     (let n = (of_char c :: nat) in
      if 48 \<le> n \<and> n \<le> 57 then Some (n - 48)
      else if 97 \<le> n \<and> n \<le> 102 then Some (n - 87)
      else if 65 \<le> n \<and> n \<le> 70 then Some (n - 55)
      else None)"

definition unescape :: "char \<Rightarrow> char option" where
  "unescape e =
     (if e = CHR 0x22 \<or> e = CHR 0x5C \<or> e = CHR ''/'' then Some e
      else if e = CHR ''n'' then Some (CHR 0x0A)
      else if e = CHR ''r'' then Some (CHR 0x0D)
      else if e = CHR ''t'' then Some (CHR 0x09)
      else if e = CHR ''b'' then Some (CHR 0x08)
      else if e = CHR ''f'' then Some (CHR 0x0C)
      else None)"

definition unicode_escape :: "string \<Rightarrow> char option" where
  "unicode_escape ds =
     (case map hex_val ds of
        [Some a, Some b, Some c, Some d] \<Rightarrow>
          if a = 0 \<and> b = 0 then Some (char_of (16 * c + d)) else None
      | _ \<Rightarrow> None)"

fun scan_string :: "string \<Rightarrow> (string \<times> string) option" where
  "scan_string [] = None"
| "scan_string (c # cs) =
     (if c = CHR 0x22 then Some ([], cs)
      else if c = CHR 0x5C then
        (case cs of
           [] \<Rightarrow> None
         | e # r \<Rightarrow>
             if e = CHR ''u'' then
               (case r of
                  a # b # x # y # r' \<Rightarrow>
                    (case unicode_escape [a, b, x, y] of
                       None \<Rightarrow> None
                     | Some ch \<Rightarrow> map_option (\<lambda>(s, t). (ch # s, t)) (scan_string r'))
                | _ \<Rightarrow> None)
             else
               (case unescape e of
                  None \<Rightarrow> None
                | Some ch \<Rightarrow> map_option (\<lambda>(s, t). (ch # s, t)) (scan_string r)))
      else if (of_char c :: nat) < 32 then None
      else map_option (\<lambda>(s, t). (c # s, t)) (scan_string cs))"

definition scan_nat :: "string \<Rightarrow> (nat \<times> string) option" where
  "scan_nat s =
     (let ds = takeWhile is_digit s in
      if ds = [] \<or> (1 < length ds \<and> hd ds = CHR ''0'') then None
      else Some (foldl (\<lambda>acc d. 10 * acc + digit_val d) 0 ds, dropWhile is_digit s))"

definition scan_int :: "string \<Rightarrow> (json \<times> string) option" where
  "scan_int s =
     (case s of
        [] \<Rightarrow> None
      | c # cs \<Rightarrow>
          if c = CHR ''-'' then map_option (\<lambda>(n, t). (JInt (- int n), t)) (scan_nat cs)
          else map_option (\<lambda>(n, t). (JInt (int n), t)) (scan_nat s))"

fun parse_value :: "nat \<Rightarrow> string \<Rightarrow> (json \<times> string) option"
  and parse_elements :: "nat \<Rightarrow> string \<Rightarrow> (json list \<times> string) option"
  and parse_members :: "nat \<Rightarrow> string \<Rightarrow> ((string \<times> json) list \<times> string) option"
where
  "parse_value 0 s = None"
| "parse_value (Suc n) s =
     (case skip_ws s of
        [] \<Rightarrow> None
      | c # cs \<Rightarrow>
          if c = CHR 0x22 then map_option (\<lambda>(t, r). (JString t, r)) (scan_string cs)
          else if c = CHR ''['' then
            (if take 1 (skip_ws cs) = '']'' then Some (JArray [], drop 1 (skip_ws cs))
             else map_option (\<lambda>(xs, r). (JArray xs, r)) (parse_elements n cs))
          else if c = CHR ''{'' then
            (if take 1 (skip_ws cs) = ''}'' then Some (JObject [], drop 1 (skip_ws cs))
             else map_option (\<lambda>(kvs, r). (JObject kvs, r)) (parse_members n cs))
          else scan_int (c # cs))"
| "parse_elements 0 s = None"
| "parse_elements (Suc n) s =
     (case parse_value n s of
        None \<Rightarrow> None
      | Some (v, r) \<Rightarrow>
          (case skip_ws r of
             [] \<Rightarrow> None
           | c # r' \<Rightarrow>
               if c = CHR '','' then map_option (\<lambda>(vs, t). (v # vs, t)) (parse_elements n r')
               else if c = CHR '']'' then Some ([v], r')
               else None))"
| "parse_members 0 s = None"
| "parse_members (Suc n) s =
     (case skip_ws s of
        [] \<Rightarrow> None
      | q # cs \<Rightarrow>
          if q \<noteq> CHR 0x22 then None
          else
            (case scan_string cs of
               None \<Rightarrow> None
             | Some (k, r) \<Rightarrow>
                 (case skip_ws r of
                    [] \<Rightarrow> None
                  | colon # r1 \<Rightarrow>
                      if colon \<noteq> CHR '':'' then None
                      else
                        (case parse_value n r1 of
                           None \<Rightarrow> None
                         | Some (v, r2) \<Rightarrow>
                             (case skip_ws r2 of
                                [] \<Rightarrow> None
                              | c # r3 \<Rightarrow>
                                  if c = CHR '','' then
                                    map_option (\<lambda>(kvs, t). ((k, v) # kvs, t)) (parse_members n r3)
                                  else if c = CHR ''}'' then Some ([(k, v)], r3)
                                  else None)))))"

definition json_loads :: "string \<Rightarrow> json option" where
  "json_loads s =
     (case parse_value (Suc (length s)) s of
        None \<Rightarrow> None
      | Some (v, r) \<Rightarrow> if skip_ws r = [] then Some v else None)"

text \<open>
  The field at a path of keys. A dictionary read from text keeps the last value of a
  repeated key.
\<close>

fun json_get :: "string list \<Rightarrow> json \<Rightarrow> json option" where
  "json_get [] v = Some v"
| "json_get (k # ks) v =
     (case v of
        JObject kvs \<Rightarrow> (case map_of (rev kvs) k of None \<Rightarrow> None | Some w \<Rightarrow> json_get ks w)
      | _ \<Rightarrow> None)"

definition json_field :: "string list \<Rightarrow> string \<Rightarrow> json option" where
  "json_field path text = (case json_loads text of None \<Rightarrow> None | Some v \<Rightarrow> json_get path v)"

section \<open>The mock tool handler\<close>

definition marathahalli_data :: json where
  "marathahalli_data = JObject
     [(''location'', JString ''Marathahalli, Bangalore''),
      (''peak_hours'', JObject
         [(''weekdays'', JArray [JString ''6PM-8PM'']),
          (''weekends'', JArray [JString ''11AM-2PM'', JString ''5PM-9PM''])]),
      (''footfall_data'', JObject
         [(''average_daily'', JInt 1250),
          (''highest_hour'', JString ''6PM-7PM''),
          (''busiest_day'', JString ''Saturday'')]),
      (''competitor_insights'', JObject
         [(''density'', JString ''High''),
          (''major_players'', JArray [JString ''Central'', JString ''Lifestyle'', JString ''Max'']),
          (''comparative_traffic'', JString ''25% higher during evening hours'')])]"

definition pune_data :: json where
  "pune_data = JObject
     [(''location'', JString ''Pune, Maharashtra''),
      (''peak_hours'', JObject
         [(''weekdays'', JArray [JString ''5PM-7PM'']),
          (''weekends'', JArray [JString ''12PM-3PM'', JString ''6PM-8PM''])]),
      (''footfall_data'', JObject
         [(''average_daily'', JInt 980),
          (''highest_hour'', JString ''6PM-7PM''),
          (''busiest_day'', JString ''Sunday'')]),
      (''competitor_insights'', JObject
         [(''density'', JString ''Medium''),
          (''major_players'',
             JArray [JString ''Westside'', JString ''Shoppers Stop'', JString ''Pantaloons'']),
          (''comparative_traffic'', JString ''15% higher during weekend evenings'')])]"

definition no_data :: json where
  "no_data = JObject [(''error'', JString ''No specific data available for this location'')]"

text \<open>\<^verbatim>\<open>_query_retail_footprint_api\<close>: the first branch whose place name occurs in the
  lower-cased query decides. This is the text returned, with the lower case of ASCII; the
  print of the query and the lower case beyond ASCII are in
  \<open>query_retail_footprint_api_run\<close> further down.\<close>

definition query_retail_footprint_api :: "string \<Rightarrow> string" where
  "query_retail_footprint_api query =
     (if sublist ''marathahalli'' (str_lower query) then
        (let mock_data = marathahalli_data in json_dumps (Some 2) mock_data)
      else if sublist ''pune'' (str_lower query) then
        (let mock_data = pune_data in json_dumps (Some 2) mock_data)
      else json_dumps None no_data)"

text \<open>
  A query contains a pattern case-insensitively when some contiguous part of it equals
  the pattern up to the case of its letters.
\<close>

definition contains_ci :: "string \<Rightarrow> string \<Rightarrow> bool" where
  "contains_ci pat query = (\<exists>part. sublist part query \<and> str_lower part = str_lower pat)"

section \<open>Construction\<close>




section \<open>The functions in full: console output and both kinds of raise\<close>

text \<open>
  The definitions above give what \<^verbatim>\<open>_call_model\<close> and the tool handler return, for a
  client whose failures are instances of \<^verbatim>\<open>Exception\<close>. The program also prints, and
  \<^verbatim>\<open>print\<close> can raise (a closed stream, a text the stream cannot encode); and a call can
  raise an exception that is no instance of \<^verbatim>\<open>Exception\<close> (\<^verbatim>\<open>KeyboardInterrupt\<close>,
  \<^verbatim>\<open>SystemExit\<close>), which \<^verbatim>\<open>except Exception\<close> lets through. This section gives
  \<^verbatim>\<open>_call_model\<close>, \<^verbatim>\<open>analyze\<close>, the tool handler and \<^verbatim>\<open>__init__\<close> with all of it.
\<close>

text \<open>
  What a call raises: an instance of \<^verbatim>\<open>Exception\<close>, or an instance of another subclass of
  \<^verbatim>\<open>BaseException\<close>, named by its class.
\<close>

datatype raised = ExceptionInstance exc | BaseExceptionOnly string

text \<open>
  The console: for every text, what \<^verbatim>\<open>print\<close> of it raises, if anything. Nothing else of
  the output is kept.
\<close>

type_synonym console = "string \<Rightarrow> raised option"

definition print_line :: "console \<Rightarrow> string \<Rightarrow> raised + unit" where
  "print_line out t = (case out t of None \<Rightarrow> Inr () | Some r \<Rightarrow> Inl r)"

text \<open>Statements in sequence: a raise ends the sequence.\<close>

definition bind_raised :: "raised + 'a \<Rightarrow> ('a \<Rightarrow> raised + 'b) \<Rightarrow> raised + 'b" where
  "bind_raised m f = (case m of Inl r \<Rightarrow> Inl r | Inr v \<Rightarrow> f v)"

text \<open>\<^verbatim>\<open>try: body except Exception as e: handler\<close>.\<close>

definition try_except :: "raised + 'a \<Rightarrow> (exc \<Rightarrow> raised + 'a) \<Rightarrow> raised + 'a" where
  "try_except body handler =
     (case body of
        Inl (ExceptionInstance e) \<Rightarrow> handler e
      | Inl (BaseExceptionOnly b) \<Rightarrow> Inl (BaseExceptionOnly b)
      | Inr v \<Rightarrow> Inr v)"


text \<open>The analyzer object again, with a client and a graph that raise either kind.\<close>

record runtime =
  rt_llm :: "message list \<Rightarrow> raised + message"
  rt_system_prompt :: string
  rt_graph :: "state \<Rightarrow> store \<Rightarrow> (raised + state) \<times> store"

definition runtime_of :: "analyzer \<Rightarrow> runtime" where
  "runtime_of self =
     \<lparr>rt_llm = (\<lambda>msgs. case llm self msgs of
                         Inl e \<Rightarrow> Inl (ExceptionInstance e)
                       | Inr m \<Rightarrow> Inr m),
      rt_system_prompt = system_prompt self,
      rt_graph = (\<lambda>st h. case graph self st h of
                           (Inl e, h') \<Rightarrow> (Inl (ExceptionInstance e), h')
                         | (Inr s, h') \<Rightarrow> (Inr s, h'))\<rparr>"

text \<open>
  \<^verbatim>\<open>_call_model\<close>, line by line. The two prints before the \<^verbatim>\<open>try\<close> and the print of the
  handler are outside its protection; the print after \<^verbatim>\<open>invoke\<close> is inside.
\<close>

definition call_model_run ::
  "console \<Rightarrow> runtime \<Rightarrow> state \<Rightarrow> store \<Rightarrow> (raised + state) \<times> store" where
  "call_model_run out self st h =
     (case print_line out ''Calling model...'' of
        Inl r \<Rightarrow> (Inl r, h)
      | Inr _ \<Rightarrow>
          (case (if \<not> list_ex is_SystemMessage (objs h (messages st))
                 then bind_raised (print_line out ''Adding system message'')
                        (\<lambda>_. Inr (alloc ([SystemMessage (rt_system_prompt self)]
                                           @ objs h (messages st)) h))
                 else Inr (messages st, h)) of
             Inl r \<Rightarrow> (Inl r, h)
           | Inr (msgs, h1) \<Rightarrow>
               (case print_line out
                       (''Sending '' @ show_nat (length (objs h1 msgs)) @ '' messages to LLM'') of
                  Inl r \<Rightarrow> (Inl r, h1)
                | Inr _ \<Rightarrow>
                    (case try_except
                            (bind_raised (rt_llm self (objs h1 msgs))
                               (\<lambda>response.
                                  bind_raised (print_line out ''Received response from LLM'')
                                    (\<lambda>_. Inr (objs h1 msgs @ [response]))))
                            (\<lambda>e. bind_raised (print_line out (''Error in LLM call: '' @ str_exc e))
                                    (\<lambda>_. let error_message = ''An error occurred: '' @ str_exc e
                                          in Inr (objs h1 msgs @ [HumanMessage error_message]))) of
                       Inl r \<Rightarrow> (Inl r, h1)
                     | Inr new_messages \<Rightarrow>
                         (let (r, h2) = alloc new_messages h1 in (Inr \<lparr>messages = r\<rparr>, h2))))))"

text \<open>The list a returned state denotes; the input with the prompt first when it has no
  System message.\<close>

definition run_messages :: "(raised + state) \<times> store \<Rightarrow> message list" where
  "run_messages res = (case fst res of Inl r \<Rightarrow> [] | Inr st \<Rightarrow> objs (snd res) (messages st))"

definition with_system_prompt :: "string \<Rightarrow> message list \<Rightarrow> message list" where
  "with_system_prompt prompt msgs =
     (if list_ex is_SystemMessage msgs then msgs else SystemMessage prompt # msgs)"



text \<open>
  \<^verbatim>\<open>str.lower()\<close> beyond ASCII. A string is the list of the bytes of its UTF-8 encoding.
  Two characters beyond ASCII have a lower case with an ASCII letter in it: U+0130 (capital
  I with dot above, bytes \<^verbatim>\<open>C4 B0\<close>) becomes \<^verbatim>\<open>i\<close> followed by U+0307 (bytes \<^verbatim>\<open>CC 87\<close>), and
  U+212A (the Kelvin sign, bytes \<^verbatim>\<open>E2 84 AA\<close>) becomes \<^verbatim>\<open>k\<close>. Every other character beyond
  ASCII has a lower case beyond ASCII; the model leaves its bytes as they are, which no
  search for an ASCII pattern tells apart.
\<close>

definition ascii :: "char \<Rightarrow> bool" where
  "ascii c = ((of_char c :: nat) < 128)"

fun py_lower :: "string \<Rightarrow> string" where
  "py_lower [] = []"
| "py_lower (c # cs) =
     (if c = CHR 0xC4 \<and> take 1 cs = [CHR 0xB0]
      then [CHR ''i'', CHR 0xCC, CHR 0x87] @ py_lower (drop 1 cs)
      else if c = CHR 0xE2 \<and> take 2 cs = [CHR 0x84, CHR 0xAA]
      then CHR ''k'' # py_lower (drop 2 cs)
      else lower_char c # py_lower cs)"

text \<open>\<^verbatim>\<open>_query_retail_footprint_api\<close>, with its print of the query.\<close>

definition query_retail_footprint_api_run :: "console \<Rightarrow> string \<Rightarrow> raised + string" where
  "query_retail_footprint_api_run out query =
     bind_raised (print_line out (''Querying retail footprint API with: '' @ query)) (\<lambda>_.
       if sublist ''marathahalli'' (py_lower query) then
         (let mock_data = marathahalli_data in Inr (json_dumps (Some 2) mock_data))
       else if sublist ''pune'' (py_lower query) then
         (let mock_data = pune_data in Inr (json_dumps (Some 2) mock_data))
       else Inr (json_dumps None no_data))"

text \<open>
  A query contains a pattern with a dotted capital I when some contiguous part of it,
  followed by U+0130, equals the pattern up to the case of its letters, the U+0130 standing
  for the final \<^verbatim>\<open>i\<close> of the pattern.
\<close>

definition contains_ci_dotted :: "string \<Rightarrow> string \<Rightarrow> bool" where
  "contains_ci_dotted pat query =
     (\<exists>part. sublist (part @ [CHR 0xC4, CHR 0xB0]) query
             \<and> str_lower part @ ''i'' = str_lower pat)"

text \<open>The same on lower-cased text, at the start of the text and anywhere in it.\<close>

definition dotted :: "string \<Rightarrow> string \<Rightarrow> bool" where
  "dotted p s = (\<exists>p0. p = p0 @ ''i'' \<and> prefix (p0 @ [CHR 0xC4, CHR 0xB0]) s)"

definition sdotted :: "string \<Rightarrow> string \<Rightarrow> bool" where
  "sdotted p s = (\<exists>p0. p = p0 @ ''i'' \<and> sublist (p0 @ [CHR 0xC4, CHR 0xB0]) s)"


section \<open>Sample inputs\<close>

text \<open>A client whose call fails, a graph whose run fails, and a store holding one
  conversation with a single user message.\<close>

definition unreachable_llm :: "message list \<Rightarrow> exc + message" where
  "unreachable_llm msgs = Inl (Exception ''APIConnectionError'' ''Connection error.'')"

definition failing_graph :: "state \<Rightarrow> store \<Rightarrow> (exc + state) \<times> store" where
  "failing_graph st h = (Inl (Exception ''GraphRecursionError'' ''Recursion limit of 25 reached''), h)"

definition offline_analyzer :: analyzer where
  "offline_analyzer =
     \<lparr>llm = unreachable_llm, system_prompt = ''You are a retail analyst.'', graph = failing_graph\<rparr>"

definition question_objs :: "ref \<Rightarrow> message list" where
  "question_objs r = (if r = 0 then [HumanMessage ''Footfall in Pune?''] else [])"

definition question_store :: store where
  "question_store = \<lparr>objs = question_objs, top = 1\<rparr>"

definition question_state :: state where
  "question_state = \<lparr>messages = 0\<rparr>"










text \<open>Consoles: one that accepts every text, a closed stream, and a stream that encodes
  ASCII only.\<close>

definition quiet_console :: console where
  "quiet_console t = None"

definition closed_console :: console where
  "closed_console t = Some (ExceptionInstance (ValueError ''I/O operation on closed file.''))"

definition ascii_console :: console where
  "ascii_console t =
     (if list_all ascii t then None
      else Some (ExceptionInstance (Exception ''UnicodeEncodeError'' ''ordinal not in range(128)'')))"

text \<open>A client and a graph interrupted from the keyboard, and a client whose error text is
  not ASCII.\<close>

definition interrupted_llm :: "message list \<Rightarrow> raised + message" where
  "interrupted_llm msgs = Inl (BaseExceptionOnly ''KeyboardInterrupt'')"

definition interrupted_graph :: "state \<Rightarrow> store \<Rightarrow> (raised + state) \<times> store" where
  "interrupted_graph st h = (Inl (BaseExceptionOnly ''KeyboardInterrupt''), h)"

definition interrupted_runtime :: runtime where
  "interrupted_runtime =
     \<lparr>rt_llm = interrupted_llm, rt_system_prompt = ''You are a retail analyst.'',
      rt_graph = interrupted_graph\<rparr>"

definition timeout_text :: string where
  "timeout_text = ''Zeit'' @ [CHR 0xC3, CHR 0xBC] @ ''berschreitung''"

definition timeout_llm :: "message list \<Rightarrow> raised + message" where
  "timeout_llm msgs = Inl (ExceptionInstance (Exception ''APITimeoutError'' timeout_text))"

definition timeout_graph :: "state \<Rightarrow> store \<Rightarrow> (raised + state) \<times> store" where
  "timeout_graph st h = (Inl (ExceptionInstance (Exception ''APITimeoutError'' timeout_text)), h)"

definition timeout_runtime :: runtime where
  "timeout_runtime =
     \<lparr>rt_llm = timeout_llm, rt_system_prompt = ''You are a retail analyst.'',
      rt_graph = timeout_graph\<rparr>"

text \<open>Queries: one that writes Marathahalli in capitals with a dotted capital I, and one
  with a letter beyond ASCII that names neither place.\<close>

definition dotted_query :: string where
  "dotted_query = ''Footfall in MARATHAHALL'' @ [CHR 0xC4, CHR 0xB0]"

definition dotted_pune_query :: string where
  "dotted_pune_query = ''Pune vs MARATHAHALL'' @ [CHR 0xC4, CHR 0xB0]"

definition zurich_query :: string where
  "zurich_query = ''Footfall in Z'' @ [CHR 0xC3, CHR 0xBC] @ ''rich''"





section \<open>Properties\<close>




subsection \<open>The model invoker\<close>


lemma call_model_Inr: "\<exists>st'. fst (call_model self st h) = Inr st'"
  by (auto simp: call_model_def alloc_def Let_def split: sum.splits prod.splits)

lemma call_model_fresh:
  "fst (call_model self st h) = Inr st' \<Longrightarrow> top h \<le> messages st'"
  by (auto simp: call_model_def alloc_def Let_def split: sum.splits prod.splits if_splits)

lemma call_model_frame: "r < top h \<Longrightarrow> objs (snd (call_model self st h)) r = objs h r"
  by (auto simp: call_model_def alloc_def Let_def split: sum.splits prod.splits)




text \<open>
  Claim C9. \<^verbatim>\<open>_call_model\<close> leaves the caller's list as it was: after the call the input
  reference denotes the same sequence, as does every list allocated before the call, and
  the returned state refers to a list allocated by the call.
\<close>

theorem call_model_input_unchanged:
  assumes "messages st < top h"
  shows "objs (snd (call_model self st h)) (messages st) = objs h (messages st)
       \<and> (\<forall>r<top h. objs (snd (call_model self st h)) r = objs h r)
       \<and> (\<exists>st'. fst (call_model self st h) = Inr st' \<and> top h \<le> messages st'
                \<and> messages st' \<noteq> messages st)"
proof -
  obtain st' where st': "fst (call_model self st h) = Inr st'"
    using call_model_Inr by blast
  then have "top h \<le> messages st'"
    by (rule call_model_fresh)
  with assms st' show ?thesis
    by (auto simp: call_model_frame)
qed

theorem call_model_input_unchanged_witness:
  "objs (snd (call_model offline_analyzer question_state question_store)) 0
     = [HumanMessage ''Footfall in Pune?'']"
proof -
  have "messages question_state < top question_store"
    by (simp add: question_state_def question_store_def)
  from call_model_input_unchanged [OF this, of offline_analyzer] show ?thesis
    by (simp add: question_state_def question_store_def question_objs_def)
qed

subsection \<open>The mock tool handler\<close>

lemma sublist_map_iff:
  "sublist ys (map f xs) \<longleftrightarrow> (\<exists>part. sublist part xs \<and> map f part = ys)"
proof
  assume "sublist ys (map f xs)"
  then obtain ps ss where "map f xs = ps @ ys @ ss"
    by (auto simp: sublist_def)
  then have "\<exists>us vs. xs = us @ vs \<and> ps = map f us \<and> ys @ ss = map f vs"
    by (simp only: map_eq_append_conv)
  then obtain us vs where split1: "xs = us @ vs" "ys @ ss = map f vs"
    by blast
  from split1(2) have "\<exists>bs cs. vs = bs @ cs \<and> ys = map f bs \<and> ss = map f cs"
    by (simp only: append_eq_map_conv)
  then obtain bs cs where split2: "vs = bs @ cs" "ys = map f bs"
    by blast
  have "sublist bs xs"
    unfolding split1(1) split2(1) by (rule sublist_appendI)
  with split2(2) show "\<exists>part. sublist part xs \<and> map f part = ys"
    by auto
next
  assume "\<exists>part. sublist part xs \<and> map f part = ys"
  then show "sublist ys (map f xs)"
    using map_mono_sublist by blast
qed

lemma contains_ci_lower:
  "contains_ci pat query \<longleftrightarrow> sublist (str_lower pat) (str_lower query)"
  unfolding contains_ci_def str_lower_def sublist_map_iff ..

lemma lower_marathahalli: "str_lower ''marathahalli'' = ''marathahalli''"
  by code_simp

lemma lower_pune: "str_lower ''pune'' = ''pune''"
  by code_simp

lemma loads_marathahalli:
  "json_loads (json_dumps (Some 2) marathahalli_data) = Some marathahalli_data"
  by code_simp

lemma loads_pune: "json_loads (json_dumps (Some 2) pune_data) = Some pune_data"
  by code_simp

lemma loads_no_data: "json_loads (json_dumps None no_data) = Some no_data"
  by code_simp

lemma dumps_no_data:
  "json_dumps None no_data
     = ''{'' @ [CHR 0x22] @ ''error'' @ [CHR 0x22] @ '': '' @ [CHR 0x22]
        @ ''No specific data available for this location'' @ [CHR 0x22] @ ''}''"
  by code_simp

lemma query_marathahalli:
  "contains_ci ''marathahalli'' query
   \<Longrightarrow> query_retail_footprint_api query = json_dumps (Some 2) marathahalli_data"
  by (simp add: query_retail_footprint_api_def contains_ci_lower lower_marathahalli)

lemma query_pune:
  "\<not> contains_ci ''marathahalli'' query \<Longrightarrow> contains_ci ''pune'' query
   \<Longrightarrow> query_retail_footprint_api query = json_dumps (Some 2) pune_data"
  by (simp add: query_retail_footprint_api_def contains_ci_lower lower_marathahalli lower_pune)

lemma query_other:
  "\<not> contains_ci ''marathahalli'' query \<Longrightarrow> \<not> contains_ci ''pune'' query
   \<Longrightarrow> query_retail_footprint_api query = json_dumps None no_data"
  by (simp add: query_retail_footprint_api_def contains_ci_lower lower_marathahalli lower_pune)

lemma both_places:
  "contains_ci ''marathahalli'' ''Compare Marathahalli and Pune''"
  "contains_ci ''pune'' ''Compare Marathahalli and Pune''"
  unfolding contains_ci_lower by code_simp+



subsection \<open>The tool handler with its print and the lower case beyond ASCII\<close>

lemma lower_char_high: "\<not> ascii c \<Longrightarrow> lower_char c = c"
  by (simp add: lower_char_def ascii_def Let_def)

lemma lower_char_ascii: "ascii c \<Longrightarrow> ascii (lower_char c)"
  by (auto simp: lower_char_def ascii_def Let_def)

lemma high_bytes:
  "\<not> ascii (CHR 0xC4)" "\<not> ascii (CHR 0xB0)" "\<not> ascii (CHR 0xCC)" "\<not> ascii (CHR 0x87)"
  "\<not> ascii (CHR 0xE2)" "\<not> ascii (CHR 0x84)" "\<not> ascii (CHR 0xAA)"
  by (simp_all add: ascii_def)

lemma lower_char_eq_high: "\<not> ascii b \<Longrightarrow> lower_char c = b \<longleftrightarrow> c = b"
  using lower_char_ascii lower_char_high by metis

lemma dotted_Cons:
  assumes "ascii x"
  shows "dotted (x # p') (a # s) \<longleftrightarrow>
     (x = CHR ''i'' \<and> p' = [] \<and> a = CHR 0xC4 \<and> prefix [CHR 0xB0] s) \<or> (x = a \<and> dotted p' s)"
proof
  assume "dotted (x # p') (a # s)"
  then obtain p0 where p0: "x # p' = p0 @ ''i''" "prefix (p0 @ [CHR 0xC4, CHR 0xB0]) (a # s)"
    by (auto simp: dotted_def)
  show "(x = CHR ''i'' \<and> p' = [] \<and> a = CHR 0xC4 \<and> prefix [CHR 0xB0] s) \<or> (x = a \<and> dotted p' s)"
  proof (cases p0)
    case Nil
    with p0 show ?thesis by auto
  next
    case (Cons y ys)
    with p0 have "x = a" "p' = ys @ ''i''" "prefix (ys @ [CHR 0xC4, CHR 0xB0]) s"
      by auto
    then show ?thesis by (auto simp: dotted_def)
  qed
next
  assume "(x = CHR ''i'' \<and> p' = [] \<and> a = CHR 0xC4 \<and> prefix [CHR 0xB0] s) \<or> (x = a \<and> dotted p' s)"
  then show "dotted (x # p') (a # s)"
  proof
    assume "x = CHR ''i'' \<and> p' = [] \<and> a = CHR 0xC4 \<and> prefix [CHR 0xB0] s"
    then show ?thesis
      unfolding dotted_def by (intro exI [of _ "[]"]) auto
  next
    assume "x = a \<and> dotted p' s"
    then obtain p0 where "p' = p0 @ ''i''" "prefix (p0 @ [CHR 0xC4, CHR 0xB0]) s" "x = a"
      by (auto simp: dotted_def)
    then show ?thesis
      unfolding dotted_def by (intro exI [of _ "a # p0"]) auto
  qed
qed

lemma dotted_Nil [simp]: "\<not> dotted [] s" "\<not> dotted p []"
  by (auto simp: dotted_def)

lemma prefix_py_lower:
  assumes "\<forall>c\<in>set p. ascii c" and "CHR ''k'' \<notin> set p"
  shows "prefix p (py_lower q) \<longleftrightarrow> prefix p (str_lower q) \<or> dotted p (str_lower q)"
  using assms
proof (induction q arbitrary: p rule: py_lower.induct)
  case 1
  then show ?case by (simp add: str_lower_def)
next
  case (2 c cs)
  show ?case
  proof (cases p)
    case Nil
    then show ?thesis by simp
  next
    case (Cons x p')
    have x: "ascii x" and p': "\<forall>c\<in>set p'. ascii c" "CHR ''k'' \<notin> set p'" and xk: "x \<noteq> CHR ''k''"
      using "2.prems" Cons by auto
    have xhigh: "x \<noteq> b" if "\<not> ascii b" for b
      using x that by auto
    have p'high: "\<not> prefix p' (b # s)" if "\<not> ascii b" "p' \<noteq> []" for b s
      using p'(1) that by (cases p') auto
    consider (dot) "c = CHR 0xC4" "take 1 cs = [CHR 0xB0]"
      | (kelvin) "\<not> (c = CHR 0xC4 \<and> take 1 cs = [CHR 0xB0])" "c = CHR 0xE2" "take 2 cs = [CHR 0x84, CHR 0xAA]"
      | (plain) "\<not> (c = CHR 0xC4 \<and> take 1 cs = [CHR 0xB0])" "\<not> (c = CHR 0xE2 \<and> take 2 cs = [CHR 0x84, CHR 0xAA])"
      by blast
    then show ?thesis
    proof cases
      case dot
      then obtain rest where cs: "cs = CHR 0xB0 # rest"
        by (cases cs) auto
      have py: "py_lower (c # cs) = CHR ''i'' # CHR 0xCC # CHR 0x87 # py_lower rest"
        using dot cs by simp
      have st: "str_lower (c # cs) = CHR 0xC4 # CHR 0xB0 # str_lower rest"
        using dot cs by (simp add: str_lower_def lower_char_high high_bytes)
      have "prefix p (py_lower (c # cs)) \<longleftrightarrow> x = CHR ''i'' \<and> p' = []"
        unfolding py Cons using p'high [of "CHR 0xCC"] by (auto simp: high_bytes)
      moreover have "prefix p (str_lower (c # cs)) \<or> dotted p (str_lower (c # cs))
          \<longleftrightarrow> x = CHR ''i'' \<and> p' = []"
        unfolding st Cons using xhigh [of "CHR 0xC4"] by (auto simp: dotted_Cons [OF x] high_bytes)
      ultimately show ?thesis by simp
    next
      case kelvin
      then obtain rest where cs: "cs = CHR 0x84 # CHR 0xAA # rest"
        by (cases cs; cases "tl cs") auto
      have py: "py_lower (c # cs) = CHR ''k'' # py_lower rest"
        using kelvin cs by simp
      have st: "str_lower (c # cs) = CHR 0xE2 # CHR 0x84 # CHR 0xAA # str_lower rest"
        using kelvin cs by (simp add: str_lower_def lower_char_high high_bytes)
      have "\<not> prefix p (py_lower (c # cs))"
        unfolding py Cons using xk by auto
      moreover have "\<not> (prefix p (str_lower (c # cs)) \<or> dotted p (str_lower (c # cs)))"
        unfolding st Cons using xhigh [of "CHR 0xE2"] by (auto simp: dotted_Cons [OF x] high_bytes)
      ultimately show ?thesis by simp
    next
      case plain
      have py: "py_lower (c # cs) = lower_char c # py_lower cs"
        using plain by auto
      have st: "str_lower (c # cs) = lower_char c # str_lower cs"
        by (simp add: str_lower_def)
      have IH: "prefix p' (py_lower cs) \<longleftrightarrow> prefix p' (str_lower cs) \<or> dotted p' (str_lower cs)"
        using "2.IH"(3) [OF plain p'] .
      have nodot: "\<not> (lower_char c = CHR 0xC4 \<and> prefix [CHR 0xB0] (str_lower cs))"
      proof
        assume a: "lower_char c = CHR 0xC4 \<and> prefix [CHR 0xB0] (str_lower cs)"
        then have "c = CHR 0xC4"
          by (simp add: lower_char_eq_high high_bytes)
        moreover from a obtain d ds where "cs = d # ds" "lower_char d = CHR 0xB0"
          by (cases cs) (auto simp: str_lower_def)
        then have "take 1 cs = [CHR 0xB0]"
          by (simp add: lower_char_eq_high high_bytes)
        ultimately show False using plain(1) by simp
      qed
      show ?thesis
        unfolding py st Cons using IH nodot by (auto simp: dotted_Cons [OF x])
    qed
  qed
qed


lemma sdotted_Nil [simp]: "\<not> sdotted p []"
  by (auto simp: sdotted_def)

lemma sdotted_Cons: "sdotted p (a # s) \<longleftrightarrow> dotted p (a # s) \<or> sdotted p s"
  unfolding sdotted_def dotted_def sublist_Cons_right by blast

lemma no_match_high:
  assumes "p \<noteq> []" and "\<forall>c\<in>set p. ascii c" and "\<not> ascii b" and "b \<noteq> CHR 0xC4"
  shows "\<not> prefix p (b # s)" and "\<not> dotted p (b # s)"
proof -
  from assms(1) obtain x p' where p: "p = x # p'"
    by (cases p) auto
  with assms(2) have x: "ascii x" by simp
  with assms(3) have "x \<noteq> b" by auto
  then show "\<not> prefix p (b # s)" "\<not> dotted p (b # s)"
    using assms(4) by (auto simp: p dotted_Cons [OF x])
qed

lemma sublist_py_lower:
  assumes "p \<noteq> []" and "\<forall>c\<in>set p. ascii c" and "CHR ''k'' \<notin> set p"
  shows "sublist p (py_lower q) \<longleftrightarrow> sublist p (str_lower q) \<or> sdotted p (str_lower q)"
proof (induction q rule: py_lower.induct)
  case 1
  then show ?case using assms(1) by (simp add: str_lower_def)
next
  case (2 c cs)
  note pre = prefix_py_lower [OF assms(2,3)]
  note high = no_match_high [OF assms(1,2)]
  consider (dot) "c = CHR 0xC4" "take 1 cs = [CHR 0xB0]"
    | (kelvin) "\<not> (c = CHR 0xC4 \<and> take 1 cs = [CHR 0xB0])" "c = CHR 0xE2" "take 2 cs = [CHR 0x84, CHR 0xAA]"
    | (plain) "\<not> (c = CHR 0xC4 \<and> take 1 cs = [CHR 0xB0])" "\<not> (c = CHR 0xE2 \<and> take 2 cs = [CHR 0x84, CHR 0xAA])"
    by blast
  then show ?case
  proof cases
    case dot
    then obtain rest where cs: "cs = CHR 0xB0 # rest"
      by (cases cs) auto
    have py: "py_lower (c # cs) = CHR ''i'' # CHR 0xCC # CHR 0x87 # py_lower rest"
      using dot cs by simp
    have st: "str_lower (c # cs) = CHR 0xC4 # CHR 0xB0 # str_lower rest"
      using dot cs by (simp add: str_lower_def lower_char_high high_bytes)
    have IH: "sublist p (py_lower rest) \<longleftrightarrow> sublist p (str_lower rest) \<or> sdotted p (str_lower rest)"
      using "2.IH"(1) dot cs by simp
    have "sublist p (py_lower (c # cs))
        \<longleftrightarrow> prefix p (py_lower (c # cs)) \<or> sublist p (py_lower rest)"
      unfolding py sublist_Cons_right [of p]
      using high [of "CHR 0xCC"] high [of "CHR 0x87"] by (auto simp: high_bytes)
    moreover have "sublist p (str_lower (c # cs)) \<or> sdotted p (str_lower (c # cs))
        \<longleftrightarrow> (prefix p (str_lower (c # cs)) \<or> dotted p (str_lower (c # cs)))
            \<or> (sublist p (str_lower rest) \<or> sdotted p (str_lower rest))"
      unfolding st sublist_Cons_right [of p] sdotted_Cons
      using high [of "CHR 0xB0"] by (auto simp: high_bytes)
    ultimately show ?thesis
      using pre [of "c # cs"] IH by blast
  next
    case kelvin
    then obtain rest where cs: "cs = CHR 0x84 # CHR 0xAA # rest"
      by (cases cs; cases "tl cs") auto
    have py: "py_lower (c # cs) = CHR ''k'' # py_lower rest"
      using kelvin cs by simp
    have st: "str_lower (c # cs) = CHR 0xE2 # CHR 0x84 # CHR 0xAA # str_lower rest"
      using kelvin cs by (simp add: str_lower_def lower_char_high high_bytes)
    have IH: "sublist p (py_lower rest) \<longleftrightarrow> sublist p (str_lower rest) \<or> sdotted p (str_lower rest)"
      using "2.IH"(2) kelvin cs by simp
    have "sublist p (py_lower (c # cs))
        \<longleftrightarrow> prefix p (py_lower (c # cs)) \<or> sublist p (py_lower rest)"
      unfolding py sublist_Cons_right [of p] ..
    moreover have "sublist p (str_lower (c # cs)) \<or> sdotted p (str_lower (c # cs))
        \<longleftrightarrow> (prefix p (str_lower (c # cs)) \<or> dotted p (str_lower (c # cs)))
            \<or> (sublist p (str_lower rest) \<or> sdotted p (str_lower rest))"
      unfolding st sublist_Cons_right [of p] sdotted_Cons
      using high [of "CHR 0x84"] high [of "CHR 0xAA"] by (auto simp: high_bytes)
    ultimately show ?thesis
      using pre [of "c # cs"] IH by blast
  next
    case plain
    have py: "py_lower (c # cs) = lower_char c # py_lower cs"
      using plain by auto
    have st: "str_lower (c # cs) = lower_char c # str_lower cs"
      by (simp add: str_lower_def)
    have IH: "sublist p (py_lower cs) \<longleftrightarrow> sublist p (str_lower cs) \<or> sdotted p (str_lower cs)"
      using "2.IH"(3) [OF plain] .
    have "sublist p (py_lower (c # cs))
        \<longleftrightarrow> prefix p (py_lower (c # cs)) \<or> sublist p (py_lower cs)"
      unfolding py sublist_Cons_right [of p] ..
    moreover have "sublist p (str_lower (c # cs)) \<or> sdotted p (str_lower (c # cs))
        \<longleftrightarrow> (prefix p (str_lower (c # cs)) \<or> dotted p (str_lower (c # cs)))
            \<or> (sublist p (str_lower cs) \<or> sdotted p (str_lower cs))"
      unfolding st sublist_Cons_right [of p] sdotted_Cons by blast
    ultimately show ?thesis
      using pre [of "c # cs"] IH by blast
  qed
qed

lemma contains_ci_dotted_lower:
  "contains_ci_dotted pat query \<longleftrightarrow> sdotted (str_lower pat) (str_lower query)"
proof
  assume "contains_ci_dotted pat query"
  then obtain part where part: "sublist (part @ [CHR 0xC4, CHR 0xB0]) query"
      "str_lower part @ ''i'' = str_lower pat"
    by (auto simp: contains_ci_dotted_def)
  from part(1) have "sublist (map lower_char (part @ [CHR 0xC4, CHR 0xB0])) (map lower_char query)"
    by (rule map_mono_sublist)
  then have "sublist (str_lower part @ [CHR 0xC4, CHR 0xB0]) (str_lower query)"
    by (simp add: str_lower_def lower_char_high high_bytes)
  with part(2) show "sdotted (str_lower pat) (str_lower query)"
    unfolding sdotted_def by (intro exI [of _ "str_lower part"]) simp
next
  assume "sdotted (str_lower pat) (str_lower query)"
  then obtain p0 where p0: "str_lower pat = p0 @ ''i''"
      "sublist (p0 @ [CHR 0xC4, CHR 0xB0]) (map lower_char query)"
    by (auto simp: sdotted_def str_lower_def)
  from p0(2) obtain whole where whole: "sublist whole query"
      "map lower_char whole = p0 @ [CHR 0xC4, CHR 0xB0]"
    unfolding sublist_map_iff by blast
  from whole(2) have "\<exists>part ab. whole = part @ ab \<and> p0 = map lower_char part
      \<and> [CHR 0xC4, CHR 0xB0] = map lower_char ab"
    by (simp only: map_eq_append_conv)
  then obtain part ab where split: "whole = part @ ab" "p0 = map lower_char part"
      "map lower_char ab = [CHR 0xC4, CHR 0xB0]"
    by metis
  from split(3) obtain a b where ab: "ab = [a, b]" "lower_char a = CHR 0xC4" "lower_char b = CHR 0xB0"
    by (cases ab; cases "tl ab") auto
  then have "ab = [CHR 0xC4, CHR 0xB0]"
    by (simp add: lower_char_eq_high high_bytes)
  with whole(1) split(1,2) p0(1) show "contains_ci_dotted pat query"
    unfolding contains_ci_dotted_def by (intro exI [of _ part]) (simp add: str_lower_def)
qed

lemma marathahalli_in_lower:
  "sublist ''marathahalli'' (py_lower query)
     \<longleftrightarrow> contains_ci ''marathahalli'' query \<or> contains_ci_dotted ''marathahalli'' query"
proof -
  have "sublist ''marathahalli'' (py_lower query)
     \<longleftrightarrow> sublist ''marathahalli'' (str_lower query) \<or> sdotted ''marathahalli'' (str_lower query)"
    by (rule sublist_py_lower) (simp_all add: ascii_def)
  then show ?thesis
    by (simp add: contains_ci_lower contains_ci_dotted_lower lower_marathahalli)
qed

lemma pune_in_lower:
  "sublist ''pune'' (py_lower query) \<longleftrightarrow> contains_ci ''pune'' query"
proof -
  have "sublist ''pune'' (py_lower query)
     \<longleftrightarrow> sublist ''pune'' (str_lower query) \<or> sdotted ''pune'' (str_lower query)"
    by (rule sublist_py_lower) (simp_all add: ascii_def)
  moreover have "\<not> sdotted ''pune'' s" for s
  proof
    assume "sdotted ''pune'' s"
    then obtain p0 where "''pune'' = p0 @ ''i''"
      by (auto simp: sdotted_def)
    then have "last ''pune'' = last (p0 @ ''i'')"
      by simp
    then show False by simp
  qed
  ultimately show ?thesis
    by (simp add: contains_ci_lower lower_pune)
qed

lemma run_printed:
  "out (''Querying retail footprint API with: '' @ query) = Some r
   \<Longrightarrow> query_retail_footprint_api_run out query = Inl r"
  by (simp add: query_retail_footprint_api_run_def print_line_def bind_raised_def)

lemma run_returns:
  "query_retail_footprint_api_run out query = Inr v
   \<Longrightarrow> out (''Querying retail footprint API with: '' @ query) = None"
  by (cases "out (''Querying retail footprint API with: '' @ query)")
    (simp_all add: query_retail_footprint_api_run_def print_line_def bind_raised_def)

lemma run_marathahalli:
  "out (''Querying retail footprint API with: '' @ query) = None
   \<Longrightarrow> contains_ci ''marathahalli'' query \<or> contains_ci_dotted ''marathahalli'' query
   \<Longrightarrow> query_retail_footprint_api_run out query = Inr (json_dumps (Some 2) marathahalli_data)"
  by (simp add: query_retail_footprint_api_run_def print_line_def bind_raised_def
      marathahalli_in_lower)

lemma run_pune:
  "out (''Querying retail footprint API with: '' @ query) = None
   \<Longrightarrow> \<not> contains_ci ''marathahalli'' query \<Longrightarrow> \<not> contains_ci_dotted ''marathahalli'' query
   \<Longrightarrow> contains_ci ''pune'' query
   \<Longrightarrow> query_retail_footprint_api_run out query = Inr (json_dumps (Some 2) pune_data)"
  by (simp add: query_retail_footprint_api_run_def print_line_def bind_raised_def
      marathahalli_in_lower pune_in_lower)

lemma run_other:
  "out (''Querying retail footprint API with: '' @ query) = None
   \<Longrightarrow> \<not> contains_ci ''marathahalli'' query \<Longrightarrow> \<not> contains_ci_dotted ''marathahalli'' query
   \<Longrightarrow> \<not> contains_ci ''pune'' query
   \<Longrightarrow> query_retail_footprint_api_run out query = Inr (json_dumps None no_data)"
  by (simp add: query_retail_footprint_api_run_def print_line_def bind_raised_def
      marathahalli_in_lower pune_in_lower)

lemma run_agrees:
  assumes "out (''Querying retail footprint API with: '' @ query) = None"
    and "contains_ci ''marathahalli'' query \<or> \<not> contains_ci_dotted ''marathahalli'' query"
  shows "query_retail_footprint_api_run out query = Inr (query_retail_footprint_api query)"
proof (cases "contains_ci ''marathahalli'' query")
  case True
  then show ?thesis
    using assms(1) by (simp add: run_marathahalli query_marathahalli)
next
  case False
  with assms(2) have nodot: "\<not> contains_ci_dotted ''marathahalli'' query"
    by simp
  show ?thesis
  proof (cases "contains_ci ''pune'' query")
    case True
    with False nodot assms(1) show ?thesis
      by (simp add: run_pune query_pune)
  next
    case nopune: False
    with False nodot assms(1) show ?thesis
      by (simp add: run_other query_other)
  qed
qed

lemma dotted_query_facts:
  "\<not> contains_ci ''marathahalli'' dotted_query"
  "\<not> contains_ci ''pune'' dotted_query"
  "contains_ci_dotted ''marathahalli'' dotted_query"
proof -
  show "\<not> contains_ci ''marathahalli'' dotted_query" "\<not> contains_ci ''pune'' dotted_query"
    unfolding contains_ci_lower dotted_query_def by code_simp+
  have "sublist (''MARATHAHALL'' @ [CHR 0xC4, CHR 0xB0]) dotted_query"
    unfolding dotted_query_def by code_simp
  moreover have "str_lower ''MARATHAHALL'' @ ''i'' = str_lower ''marathahalli''"
    by code_simp
  ultimately show "contains_ci_dotted ''marathahalli'' dotted_query"
    unfolding contains_ci_dotted_def by blast
qed

lemma no_dot_no_dotted:
  "\<not> sublist [CHR 0xC4, CHR 0xB0] query \<Longrightarrow> \<not> contains_ci_dotted pat query"
proof
  assume no: "\<not> sublist [CHR 0xC4, CHR 0xB0] query" and "contains_ci_dotted pat query"
  then obtain part ps ss where "query = ps @ (part @ [CHR 0xC4, CHR 0xB0]) @ ss"
    by (auto simp: contains_ci_dotted_def sublist_def)
  then have "query = (ps @ part) @ [CHR 0xC4, CHR 0xB0] @ ss"
    by simp
  then have "sublist [CHR 0xC4, CHR 0xB0] query"
    unfolding sublist_def by blast
  with no show False ..
qed

text \<open>
  Claim C7, as stated: every query that contains neither place name case-insensitively
  gets the error record, and the handler does not raise. A query that writes MARATHAHALL
  and then U+0130 contains neither name up to the case of its letters, yet its lower case
  contains \<^verbatim>\<open>marathahalli\<close> and the handler returns the Marathahalli record; and on a
  console that encodes ASCII only, the print of a query with a letter beyond ASCII raises.
\<close>

theorem unknown_place_counterexample:
  "\<not> contains_ci ''marathahalli'' dotted_query \<and> \<not> contains_ci ''pune'' dotted_query
   \<and> query_retail_footprint_api_run quiet_console dotted_query
       = Inr (json_dumps (Some 2) marathahalli_data)
   \<and> json_field [''location''] (json_dumps (Some 2) marathahalli_data)
       = Some (JString ''Marathahalli, Bangalore'')
   \<and> json_field [''error''] (json_dumps (Some 2) marathahalli_data) = None
   \<and> \<not> contains_ci ''marathahalli'' zurich_query \<and> \<not> contains_ci ''pune'' zurich_query
   \<and> query_retail_footprint_api_run ascii_console zurich_query
       = Inl (ExceptionInstance (Exception ''UnicodeEncodeError'' ''ordinal not in range(128)''))"
proof -
  have "query_retail_footprint_api_run quiet_console dotted_query
       = Inr (json_dumps (Some 2) marathahalli_data)"
    using dotted_query_facts(3) by (intro run_marathahalli) (simp_all add: quiet_console_def)
  moreover have "json_field [''location''] (json_dumps (Some 2) marathahalli_data)
       = Some (JString ''Marathahalli, Bangalore'')"
    and "json_field [''error''] (json_dumps (Some 2) marathahalli_data) = None"
    unfolding json_field_def loads_marathahalli by (simp_all add: marathahalli_data_def)
  moreover have "\<not> contains_ci ''marathahalli'' zurich_query" "\<not> contains_ci ''pune'' zurich_query"
    unfolding contains_ci_lower zurich_query_def by code_simp+
  moreover have "ascii_console (''Querying retail footprint API with: '' @ zurich_query)
       = Some (ExceptionInstance (Exception ''UnicodeEncodeError'' ''ordinal not in range(128)''))"
    by (simp add: ascii_console_def zurich_query_def ascii_def)
  then have "query_retail_footprint_api_run ascii_console zurich_query
       = Inl (ExceptionInstance (Exception ''UnicodeEncodeError'' ''ordinal not in range(128)''))"
    by (rule run_printed)
  ultimately show ?thesis
    using dotted_query_facts(1,2) by (intro conjI)
qed

text \<open>
  Claim C7, amended: for every query that does not contain \<^verbatim>\<open>pune\<close> case-insensitively
  and contains \<^verbatim>\<open>marathahalli\<close> neither case-insensitively nor with its final \<^verbatim>\<open>i\<close>
  written as U+0130, the handler, when its print of the query is accepted, returns the
  one-line JSON text of an object whose only field is \<^verbatim>\<open>error\<close>, holding the message that
  no data is available. When the print raises, the handler raises the same.
\<close>

theorem unknown_place_error_record:
  assumes "\<not> contains_ci ''marathahalli'' query"
    and "\<not> contains_ci_dotted ''marathahalli'' query"
    and "\<not> contains_ci ''pune'' query"
  shows "(out (''Querying retail footprint API with: '' @ query) = None
            \<longrightarrow> query_retail_footprint_api_run out query
                  = Inr (json_dumps None
                      (JObject [(''error'', JString ''No specific data available for this location'')])))
       \<and> (\<forall>r. out (''Querying retail footprint API with: '' @ query) = Some r
            \<longrightarrow> query_retail_footprint_api_run out query = Inl r)
       \<and> (\<forall>v. query_retail_footprint_api_run out query = Inr v
            \<longrightarrow> v = ''{'' @ [CHR 0x22] @ ''error'' @ [CHR 0x22] @ '': '' @ [CHR 0x22]
                      @ ''No specific data available for this location'' @ [CHR 0x22] @ ''}''
                \<and> json_loads v
                    = Some (JObject
                        [(''error'', JString ''No specific data available for this location'')]))"
proof -
  have ret: "query_retail_footprint_api_run out query = Inr (json_dumps None no_data)"
    if "out (''Querying retail footprint API with: '' @ query) = None"
    using that assms by (rule run_other)
  have val: "v = json_dumps None no_data" if "query_retail_footprint_api_run out query = Inr v" for v
    using ret [OF run_returns [OF that]] that by simp
  show ?thesis
  proof (intro conjI allI impI)
    assume "out (''Querying retail footprint API with: '' @ query) = None"
    then show "query_retail_footprint_api_run out query
                  = Inr (json_dumps None
                      (JObject [(''error'', JString ''No specific data available for this location'')]))"
      using ret by (simp add: no_data_def)
  next
    fix r assume "out (''Querying retail footprint API with: '' @ query) = Some r"
    then show "query_retail_footprint_api_run out query = Inl r"
      by (rule run_printed)
  next
    fix v assume "query_retail_footprint_api_run out query = Inr v"
    then have v: "v = json_dumps None no_data" by (rule val)
    show "v = ''{'' @ [CHR 0x22] @ ''error'' @ [CHR 0x22] @ '': '' @ [CHR 0x22]
                      @ ''No specific data available for this location'' @ [CHR 0x22] @ ''}''"
      unfolding v by (rule dumps_no_data)
    show "json_loads v
            = Some (JObject [(''error'', JString ''No specific data available for this location'')])"
      unfolding v loads_no_data by (simp add: no_data_def)
  qed
qed

theorem unknown_place_error_record_witness:
  "query_retail_footprint_api_run quiet_console ''Footfall in Delhi''
     = Inr (json_dumps None
         (JObject [(''error'', JString ''No specific data available for this location'')]))
   \<and> query_retail_footprint_api_run closed_console ''Footfall in Delhi''
     = Inl (ExceptionInstance (ValueError ''I/O operation on closed file.''))"
proof -
  have "\<not> contains_ci ''marathahalli'' ''Footfall in Delhi''"
    and "\<not> contains_ci ''pune'' ''Footfall in Delhi''"
    unfolding contains_ci_lower by code_simp+
  moreover have "\<not> sublist [CHR 0xC4, CHR 0xB0] ''Footfall in Delhi''"
    by code_simp
  then have "\<not> contains_ci_dotted ''marathahalli'' ''Footfall in Delhi''"
    by (rule no_dot_no_dotted)
  ultimately show ?thesis
    using unknown_place_error_record [of "''Footfall in Delhi''" quiet_console]
      unknown_place_error_record [of "''Footfall in Delhi''" closed_console]
    by (simp add: quiet_console_def closed_console_def)
qed

text \<open>
  Claim C6, as stated: every query that contains \<^verbatim>\<open>pune\<close> case-insensitively gets a record
  whose \<^verbatim>\<open>busiest_day\<close> is \<^verbatim>\<open>"Sunday"\<close>. A query that names both places is answered by the
  first branch, with the Marathahalli record, whose busiest day is Saturday; so is one
  that writes MARATHAHALL and then U+0130.
\<close>

theorem pune_busiest_day_counterexample:
  "contains_ci ''pune'' ''Compare Marathahalli and Pune''
   \<and> query_retail_footprint_api_run quiet_console ''Compare Marathahalli and Pune''
       = Inr (json_dumps (Some 2) marathahalli_data)
   \<and> contains_ci ''pune'' dotted_pune_query
   \<and> \<not> contains_ci ''marathahalli'' dotted_pune_query
   \<and> query_retail_footprint_api_run quiet_console dotted_pune_query
       = Inr (json_dumps (Some 2) marathahalli_data)
   \<and> json_field [''footfall_data'', ''busiest_day''] (json_dumps (Some 2) marathahalli_data)
       = Some (JString ''Saturday'')
   \<and> json_field [''footfall_data'', ''busiest_day''] (json_dumps (Some 2) marathahalli_data)
       \<noteq> Some (JString ''Sunday'')"
proof -
  have both: "query_retail_footprint_api_run quiet_console ''Compare Marathahalli and Pune''
       = Inr (json_dumps (Some 2) marathahalli_data)"
    using both_places(1) by (intro run_marathahalli) (simp_all add: quiet_console_def)
  have pune: "contains_ci ''pune'' dotted_pune_query"
    and nomara: "\<not> contains_ci ''marathahalli'' dotted_pune_query"
    unfolding contains_ci_lower dotted_pune_query_def by code_simp+
  have "sublist (''MARATHAHALL'' @ [CHR 0xC4, CHR 0xB0]) dotted_pune_query"
    unfolding dotted_pune_query_def by code_simp
  moreover have "str_lower ''MARATHAHALL'' @ ''i'' = str_lower ''marathahalli''"
    by code_simp
  ultimately have "contains_ci_dotted ''marathahalli'' dotted_pune_query"
    unfolding contains_ci_dotted_def by blast
  then have dot: "query_retail_footprint_api_run quiet_console dotted_pune_query
       = Inr (json_dumps (Some 2) marathahalli_data)"
    by (intro run_marathahalli) (simp_all add: quiet_console_def)
  have day: "json_field [''footfall_data'', ''busiest_day''] (json_dumps (Some 2) marathahalli_data)
       = Some (JString ''Saturday'')"
    unfolding json_field_def loads_marathahalli by (simp add: marathahalli_data_def)
  then have "json_field [''footfall_data'', ''busiest_day''] (json_dumps (Some 2) marathahalli_data)
       \<noteq> Some (JString ''Sunday'')"
    by simp
  with both pune nomara dot day both_places(2) show ?thesis
    by (intro conjI)
qed

text \<open>
  Claim C6, amended: for every query that contains \<^verbatim>\<open>pune\<close> case-insensitively and
  contains \<^verbatim>\<open>marathahalli\<close> neither case-insensitively nor with its final \<^verbatim>\<open>i\<close> written as
  U+0130, the handler, when its print of the query is accepted, returns the indented JSON
  text of the Pune record, whose \<^verbatim>\<open>footfall_data.busiest_day\<close> is \<^verbatim>\<open>"Sunday"\<close>. When the
  print raises, the handler raises the same.
\<close>

theorem pune_busiest_day:
  assumes "contains_ci ''pune'' query"
    and "\<not> contains_ci ''marathahalli'' query"
    and "\<not> contains_ci_dotted ''marathahalli'' query"
  shows "(out (''Querying retail footprint API with: '' @ query) = None
            \<longrightarrow> query_retail_footprint_api_run out query = Inr (json_dumps (Some 2) pune_data))
       \<and> (\<forall>r. out (''Querying retail footprint API with: '' @ query) = Some r
            \<longrightarrow> query_retail_footprint_api_run out query = Inl r)
       \<and> (\<forall>v. query_retail_footprint_api_run out query = Inr v
            \<longrightarrow> json_field [''footfall_data'', ''busiest_day''] v = Some (JString ''Sunday''))"
proof -
  have ret: "query_retail_footprint_api_run out query = Inr (json_dumps (Some 2) pune_data)"
    if "out (''Querying retail footprint API with: '' @ query) = None"
    using that assms(2,3,1) by (rule run_pune)
  have day: "json_field [''footfall_data'', ''busiest_day''] (json_dumps (Some 2) pune_data)
       = Some (JString ''Sunday'')"
    unfolding json_field_def loads_pune by (simp add: pune_data_def)
  have "json_field [''footfall_data'', ''busiest_day''] v = Some (JString ''Sunday'')"
    if "query_retail_footprint_api_run out query = Inr v" for v
    using ret [OF run_returns [OF that]] that day by simp
  with ret show ?thesis
    by (auto intro: run_printed)
qed

theorem pune_busiest_day_witness:
  "query_retail_footprint_api_run quiet_console ''Weekend footfall in PUNE malls''
     = Inr (json_dumps (Some 2) pune_data)
   \<and> json_field [''footfall_data'', ''busiest_day''] (json_dumps (Some 2) pune_data)
     = Some (JString ''Sunday'')"
proof -
  have "contains_ci ''pune'' ''Weekend footfall in PUNE malls''"
    and "\<not> contains_ci ''marathahalli'' ''Weekend footfall in PUNE malls''"
    unfolding contains_ci_lower by code_simp+
  moreover have "\<not> sublist [CHR 0xC4, CHR 0xB0] ''Weekend footfall in PUNE malls''"
    by code_simp
  then have "\<not> contains_ci_dotted ''marathahalli'' ''Weekend footfall in PUNE malls''"
    by (rule no_dot_no_dotted)
  ultimately have "(quiet_console (''Querying retail footprint API with: ''
          @ ''Weekend footfall in PUNE malls'') = None
        \<longrightarrow> query_retail_footprint_api_run quiet_console ''Weekend footfall in PUNE malls''
              = Inr (json_dumps (Some 2) pune_data))
      \<and> (\<forall>v. query_retail_footprint_api_run quiet_console ''Weekend footfall in PUNE malls'' = Inr v
            \<longrightarrow> json_field [''footfall_data'', ''busiest_day''] v = Some (JString ''Sunday''))"
    using pune_busiest_day [of "''Weekend footfall in PUNE malls''" quiet_console] by blast
  then show ?thesis
    by (simp add: quiet_console_def)
qed

subsection \<open>The model invoker in full\<close>

lemma print_line_accepts [simp]: "out t = None \<Longrightarrow> print_line out t = Inr ()"
  by (simp add: print_line_def)

lemma print_line_raises [simp]: "out t = Some r \<Longrightarrow> print_line out t = Inl r"
  by (simp add: print_line_def)

lemma call_model_run_handler:
  assumes "rt_llm self (with_system_prompt (rt_system_prompt self) (objs h (messages st)))
             = Inl (ExceptionInstance e)"
    and "out ''Calling model...'' = None"
    and "list_ex is_SystemMessage (objs h (messages st)) \<or> out ''Adding system message'' = None"
    and "out (''Sending ''
               @ show_nat (length (with_system_prompt (rt_system_prompt self) (objs h (messages st))))
               @ '' messages to LLM'') = None"
  shows "out (''Error in LLM call: '' @ str_exc e) = None
           \<Longrightarrow> (\<exists>st'. fst (call_model_run out self st h) = Inr st')
             \<and> run_messages (call_model_run out self st h)
                 = with_system_prompt (rt_system_prompt self) (objs h (messages st))
                    @ [HumanMessage (''An error occurred: '' @ str_exc e)]"
    and "out (''Error in LLM call: '' @ str_exc e) = Some r
           \<Longrightarrow> fst (call_model_run out self st h) = Inl r"
  using assms
  by (auto simp: call_model_run_def run_messages_def with_system_prompt_def bind_raised_def
      try_except_def alloc_def Let_def simp del: show_nat.simps)

lemma call_model_run_base:
  assumes "rt_llm self (with_system_prompt (rt_system_prompt self) (objs h (messages st)))
             = Inl (BaseExceptionOnly b)"
    and "out ''Calling model...'' = None"
    and "list_ex is_SystemMessage (objs h (messages st)) \<or> out ''Adding system message'' = None"
    and "out (''Sending ''
               @ show_nat (length (with_system_prompt (rt_system_prompt self) (objs h (messages st))))
               @ '' messages to LLM'') = None"
  shows "fst (call_model_run out self st h) = Inl (BaseExceptionOnly b)"
  using assms
  by (auto simp: call_model_run_def run_messages_def with_system_prompt_def bind_raised_def
      try_except_def alloc_def Let_def simp del: show_nat.simps)

lemma call_model_run_refines:
  assumes "\<forall>t. out t = None"
  shows "call_model_run out (runtime_of self) st h
           = (case call_model self st h of
                (Inl e, h') \<Rightarrow> (Inl (ExceptionInstance e), h')
              | (Inr s, h') \<Rightarrow> (Inr s, h'))"
  using assms
  by (auto simp: call_model_run_def call_model_def runtime_of_def bind_raised_def
      try_except_def alloc_def Let_def split: sum.splits simp del: show_nat.simps)

lemma offline_runtime:
  "rt_llm (runtime_of offline_analyzer) msgs
     = Inl (ExceptionInstance (Exception ''APIConnectionError'' ''Connection error.''))"
  "rt_system_prompt (runtime_of offline_analyzer) = ''You are a retail analyst.''"
  "rt_graph (runtime_of offline_analyzer) st h
     = (Inl (ExceptionInstance (Exception ''GraphRecursionError'' ''Recursion limit of 25 reached'')), h)"
  by (simp_all add: runtime_of_def offline_analyzer_def unreachable_llm_def failing_graph_def)

lemma question_sent:
  "with_system_prompt ''You are a retail analyst.'' (objs question_store (messages question_state))
     = [SystemMessage ''You are a retail analyst.'', HumanMessage ''Footfall in Pune?'']"
  "\<not> list_ex is_SystemMessage (objs question_store (messages question_state))"
  by (simp_all add: with_system_prompt_def question_store_def question_state_def question_objs_def)

text \<open>
  Claim C2, as stated: whatever the client raises, \<^verbatim>\<open>_call_model\<close> propagates nothing and
  appends an Assistant-role message. The handler appends a \<^verbatim>\<open>HumanMessage\<close>, which has the
  User role; a \<^verbatim>\<open>KeyboardInterrupt\<close> of the client is no instance of \<^verbatim>\<open>Exception\<close> and
  propagates; and when the console cannot encode the text of the error, the print of the
  handler raises and that propagates.
\<close>

theorem call_model_degraded_role_counterexample:
  "rt_llm (runtime_of offline_analyzer)
       (with_system_prompt (rt_system_prompt (runtime_of offline_analyzer))
          (objs question_store (messages question_state)))
     = Inl (ExceptionInstance (Exception ''APIConnectionError'' ''Connection error.''))
   \<and> run_messages (call_model_run quiet_console (runtime_of offline_analyzer)
         question_state question_store)
     = [SystemMessage ''You are a retail analyst.'', HumanMessage ''Footfall in Pune?'',
        HumanMessage ''An error occurred: Connection error.'']
   \<and> role_of (last (run_messages (call_model_run quiet_console (runtime_of offline_analyzer)
         question_state question_store))) \<noteq> Assistant
   \<and> fst (call_model_run quiet_console interrupted_runtime question_state question_store)
     = Inl (BaseExceptionOnly ''KeyboardInterrupt'')
   \<and> fst (call_model_run ascii_console timeout_runtime question_state question_store)
     = Inl (ExceptionInstance (Exception ''UnicodeEncodeError'' ''ordinal not in range(128)''))"
proof -
  have msgs: "run_messages (call_model_run quiet_console (runtime_of offline_analyzer)
         question_state question_store)
     = [SystemMessage ''You are a retail analyst.'', HumanMessage ''Footfall in Pune?'',
        HumanMessage ''An error occurred: Connection error.'']"
    by code_simp
  have int: "fst (call_model_run quiet_console interrupted_runtime question_state question_store)
     = Inl (BaseExceptionOnly ''KeyboardInterrupt'')"
    by code_simp
  have enc: "fst (call_model_run ascii_console timeout_runtime question_state question_store)
     = Inl (ExceptionInstance (Exception ''UnicodeEncodeError'' ''ordinal not in range(128)''))"
    by code_simp
  show ?thesis
    unfolding msgs using int enc by (simp add: offline_runtime)
qed

text \<open>
  Claim C2, amended: for every conversation and every instance of \<^verbatim>\<open>Exception\<close> raised by
  the underlying language-model call, when the console accepts the lines \<^verbatim>\<open>_call_model\<close>
  prints, \<^verbatim>\<open>_call_model\<close> propagates nothing and returns the conversation it sent (the
  input, with the system prompt first when the input had no System message) extended with
  one User-role message, a \<^verbatim>\<open>HumanMessage\<close> whose content is \<^verbatim>\<open>"An error occurred: "\<close>
  followed by the text of the exception.
\<close>

theorem call_model_contains_failure:
  assumes "rt_llm self (with_system_prompt (rt_system_prompt self) (objs h (messages st)))
             = Inl (ExceptionInstance e)"
    and "out ''Calling model...'' = None"
    and "list_ex is_SystemMessage (objs h (messages st)) \<or> out ''Adding system message'' = None"
    and "out (''Sending ''
               @ show_nat (length (with_system_prompt (rt_system_prompt self) (objs h (messages st))))
               @ '' messages to LLM'') = None"
    and "out (''Error in LLM call: '' @ str_exc e) = None"
  shows "(\<exists>st'. fst (call_model_run out self st h) = Inr st')
       \<and> run_messages (call_model_run out self st h)
           = with_system_prompt (rt_system_prompt self) (objs h (messages st))
              @ [HumanMessage (''An error occurred: '' @ str_exc e)]
       \<and> role_of (last (run_messages (call_model_run out self st h))) = User"
proof -
  note main = call_model_run_handler(1) [OF assms]
  then have "role_of (last (run_messages (call_model_run out self st h))) = User"
    by simp
  with main show ?thesis by blast
qed

theorem call_model_contains_failure_witness:
  "(\<exists>st'. fst (call_model_run quiet_console (runtime_of offline_analyzer)
        question_state question_store) = Inr st')
   \<and> run_messages (call_model_run quiet_console (runtime_of offline_analyzer)
        question_state question_store)
     = [SystemMessage ''You are a retail analyst.'', HumanMessage ''Footfall in Pune?'',
        HumanMessage ''An error occurred: Connection error.'']"
  using call_model_contains_failure [of "runtime_of offline_analyzer" question_store question_state
      "Exception ''APIConnectionError'' ''Connection error.''" quiet_console]
  by (simp add: offline_runtime question_sent quiet_console_def del: show_nat.simps)

subsection \<open>The top-level operation\<close>




subsection \<open>Construction\<close>






end
